theory Spec2Isabelle
  imports Main
begin

section \<open>Data model of the notifications store\<close>

text \<open>
  The embedded file is \<^verbatim>\<open>app/src/lib/stores/notifications-store.ts\<close>: the class
  \<^verbatim>\<open>NotificationsStore\<close>, which turns \<^verbatim>\<open>pr-checks-failed\<close> Alive events into
  operating-system notifications. Its models are imported from other files; the
  records below hold the fields the store reads.
\<close>

text \<open>\<^verbatim>\<open>GitHubRepository\<close>: the store reads \<^verbatim>\<open>endpoint\<close>, \<^verbatim>\<open>owner.login\<close> and \<^verbatim>\<open>name\<close>.\<close>

record github_repo =
  endpoint :: string
  owner_login :: string
  gh_name :: string

text \<open>
  \<^verbatim>\<open>Repository\<close>, whose \<^verbatim>\<open>gitHubRepository\<close> may be null, and
  \<^verbatim>\<open>RepositoryWithGitHubRepository\<close>, the same repository narrowed to a non-null
  \<^verbatim>\<open>gitHubRepository\<close>.
\<close>

record repo =
  repo_path :: string
  gitHubRepository :: "github_repo option"

record repo_with_github =
  rwg_path :: string
  rwg_gitHubRepository :: github_repo

text \<open>\<^verbatim>\<open>PullRequest\<close>: \<^verbatim>\<open>pullRequestNumber\<close>, \<^verbatim>\<open>title\<close> and \<^verbatim>\<open>head.ref\<close>.\<close>

record pull_request =
  pullRequestNumber :: nat
  pr_title :: string
  head_ref :: string

text \<open>\<^verbatim>\<open>Commit\<close>: \<^verbatim>\<open>sha\<close>, \<^verbatim>\<open>author.email\<close> and \<^verbatim>\<open>summary\<close>.\<close>

record commit =
  commit_id :: string
  author_email :: string
  summary :: string

text \<open>\<^verbatim>\<open>Account\<close>: \<^verbatim>\<open>endpoint\<close> and \<^verbatim>\<open>emails\<close>, each entry with its \<^verbatim>\<open>email\<close>.\<close>

record api_email =
  email :: string

record account =
  account_endpoint :: string
  emails :: "api_email list"

text \<open>The client that \<^verbatim>\<open>API.fromAccount(account)\<close> builds.\<close>

datatype api_client = API_fromAccount account

text \<open>
  \<^verbatim>\<open>APICheckConclusion\<close> is declared in \<^verbatim>\<open>lib/api\<close>, outside the embedded file. The
  store compares a conclusion with \<^verbatim>\<open>APICheckConclusion.Failure\<close> only; the other
  members are the conclusions of the GitHub checks API.
\<close>

datatype api_check_conclusion =
  ActionRequired | Canceled | TimedOut | Failure | Neutral | Success | Skipped | Stale

text \<open>\<^verbatim>\<open>IRefCheck\<close>: a normalised check; \<^verbatim>\<open>conclusion\<close> is null while the check runs.\<close>

record ref_check =
  check_name :: string
  conclusion :: "api_check_conclusion option"

text \<open>The two REST payloads: the combined status of a ref and its check runs.\<close>

record api_ref_status_item =
  status_context :: string
  status_state :: string

record api_ref_status =
  statuses :: "api_ref_status_item list"

record api_check_run =
  run_id :: nat
  run_name :: string
  run_conclusion :: "api_check_conclusion option"

record api_ref_check_runs =
  check_runs :: "api_check_run list"

text \<open>
  \<^verbatim>\<open>DesktopAliveEvent\<close>: the \<^verbatim>\<open>type\<close> tag, and the two fields of a
  \<^verbatim>\<open>pr-checks-failed\<close> event that the store reads.
\<close>

record desktop_alive_event =
  event_type :: string
  pull_request_number :: nat
  commit_sha :: string

text \<open>
  The arguments of \<^verbatim>\<open>OnChecksFailedCallback\<close>, in the order of its signature, and the
  notification built from \<^verbatim>\<open>title\<close> and \<^verbatim>\<open>body\<close> with its click handler's closure.
\<close>

record checks_failed_args =
  cb_repository :: repo_with_github
  cb_pullRequest :: pull_request
  cb_commitMessage :: string
  cb_commitSha :: string
  cb_checkRuns :: "ref_check list"

record notification =
  title :: string
  body :: string
  on_click :: checks_failed_args

text \<open>
  Everything the store does to a collaborator is appended to a log: the awaited
  calls, the write to local storage, \<^verbatim>\<open>AliveStore.setEnabled\<close>, showing a
  notification, and the invocation of the registered callback (named by a number).
\<close>

datatype effect =
    GetAllPullRequests repo_with_github
  | AccountsGetAll
  | GetCommit repo_with_github string
  | FetchCombinedRefStatus api_client string string string
  | FetchRefCheckRuns api_client string string string
  | SetBoolean string bool
  | AliveSetEnabled bool
  | NotificationShow notification
  | ChecksFailedCallback nat checks_failed_args

text \<open>
  The private fields of the class, the persisted boolean settings and the log.
\<close>

record store =
  repository :: "repo_with_github option"
  onChecksFailedCallback :: "nat option"
  cachedCommits :: "string \<rightharpoonup> commit"
  skipCommitShas :: "string set"
  localStorage :: "string \<rightharpoonup> bool"
  effects :: "effect list"

text \<open>
  What the collaborators answer. The network and the other stores are outside the file,
  and so are the helpers of \<^verbatim>\<open>ci-checks\<close> that convert and deduplicate API entries:
  all are parameters of the model.
\<close>

record env =
  getAllPullRequests :: "repo_with_github \<Rightarrow> pull_request list"
  accountsStore_getAll :: "account list"
  getCommit :: "repo_with_github \<Rightarrow> string \<Rightarrow> commit option"
  fetchCombinedRefStatus :: "api_client \<Rightarrow> string \<Rightarrow> string \<Rightarrow> string \<Rightarrow> api_ref_status option"
  fetchRefCheckRuns :: "api_client \<Rightarrow> string \<Rightarrow> string \<Rightarrow> string \<Rightarrow> api_ref_check_runs option"
  getLatestCheckRunsByName :: "api_check_run list \<Rightarrow> api_check_run list"
  apiStatusToRefCheck :: "api_ref_status_item \<Rightarrow> ref_check"
  apiCheckRunToRefCheck :: "api_check_run \<Rightarrow> ref_check"

section \<open>The log, and helpers declared outside the file\<close>

text \<open>
  Modelled from the spec: the type guard \<^verbatim>\<open>isRepositoryWithGitHubRepository\<close> of
  \<^verbatim>\<open>models/repository\<close>. The spec: the active repository "must carry a linked
  remote-repository identity (owner/name/endpoint) to be eligible for notifications; a
  repository lacking that identity is treated as no selection". \<open>narrowed\<close> is the
  repository at the narrowed type.
\<close>

definition narrowed :: "repo \<Rightarrow> repo_with_github option" where
  "narrowed r =
     (case gitHubRepository r of
        None \<Rightarrow> None
      | Some gh \<Rightarrow> Some \<lparr>rwg_path = repo_path r, rwg_gitHubRepository = gh\<rparr>)"

definition isRepositoryWithGitHubRepository :: "repo \<Rightarrow> bool" where
  "isRepositoryWithGitHubRepository r = (gitHubRepository r \<noteq> None)"

text \<open>
  Modelled from the spec: \<^verbatim>\<open>getBoolean\<close> and \<^verbatim>\<open>setBoolean\<close> of \<^verbatim>\<open>lib/local-storage\<close>.
  The spec: "Persisted boolean storage: getBoolean(key, default), setBoolean(key,
  value)", the default being the value "when absent".
\<close>

definition getBoolean :: "string \<Rightarrow> bool \<Rightarrow> store \<Rightarrow> bool" where
  "getBoolean key defaultValue st =
     (case localStorage st key of None \<Rightarrow> defaultValue | Some v \<Rightarrow> v)"

text \<open>Doing something to a collaborator appends it to the log.\<close>

definition call :: "effect \<Rightarrow> store \<Rightarrow> store" where
  "call e st = st\<lparr>effects := effects st @ [e]\<rparr>"

definition setBoolean :: "string \<Rightarrow> bool \<Rightarrow> store \<Rightarrow> store" where
  "setBoolean key v st = call (SetBoolean key v) (st\<lparr>localStorage := (localStorage st)(key \<mapsto> v)\<rparr>)"

text \<open>
  Modelled from the spec: \<^verbatim>\<open>createCombinedCheckFromChecks\<close> of \<^verbatim>\<open>ci-checks\<close>. The spec:
  the combined result is "the aggregate of all RefChecks for a ref, with an overall
  conclusion derived from the worst individual conclusion", and an empty list gives "a
  null result (no signal)". The store reads the field \<^verbatim>\<open>checks\<close> of the result only,
  so the overall conclusion is not part of the record.
\<close>

record combined_ref_check =
  checks :: "ref_check list"

definition createCombinedCheckFromChecks :: "ref_check list \<Rightarrow> combined_ref_check option" where
  "createCombinedCheckFromChecks cs = (if cs = [] then None else Some \<lparr>checks = cs\<rparr>)"

text \<open>
  A number inside a template literal is printed in decimal; pull request numbers and
  counts are natural numbers.
\<close>

fun string_of_nat :: "nat \<Rightarrow> string" where
  "string_of_nat n =
     (if n < 10 then [''0123456789'' ! n]
      else string_of_nat (n div 10) @ [''0123456789'' ! (n mod 10)])"

declare string_of_nat.simps [simp del]

section \<open>The store\<close>

text \<open>
  The constructor passes the persisted setting to \<^verbatim>\<open>AliveStore.setEnabled\<close> and
  subscribes \<^verbatim>\<open>onAliveEventReceived\<close>; the methods follow. Each takes the store and
  returns it as the method leaves it.
\<close>

text \<open>The local-storage key of the setting.\<close>

definition NotificationsEnabledKey :: string where
  "NotificationsEnabledKey = ''high-signal-notifications-enabled''"

definition setNotificationsEnabled :: "bool \<Rightarrow> store \<Rightarrow> store" where
  "setNotificationsEnabled enabled st =
     (let previousValue = getBoolean NotificationsEnabledKey True st in
      if previousValue = enabled then st
      else call (AliveSetEnabled enabled) (setBoolean NotificationsEnabledKey enabled st))"

definition getNotificationsEnabled :: "store \<Rightarrow> bool" where
  "getNotificationsEnabled st = getBoolean NotificationsEnabledKey True st"

definition selectRepository :: "repo \<Rightarrow> store \<Rightarrow> store" where
  "selectRepository r st =
     st\<lparr>repository := (if isRepositoryWithGitHubRepository r then narrowed r else None)\<rparr>"

definition onChecksFailedNotification :: "nat \<Rightarrow> store \<Rightarrow> store" where
  "onChecksFailedNotification callback st = st\<lparr>onChecksFailedCallback := Some callback\<rparr>"

text \<open>
  The handler is an \<^verbatim>\<open>async\<close> function: at each \<^verbatim>\<open>await\<close> of a collaborator it is
  suspended, and the user interface may call \<^verbatim>\<open>selectRepository\<close> before it resumes.
  A schedule gives, for each point of suspension, the repositories selected there, in
  order. What else can run there, another event's handler for one, is the subject of
  the section on the handler with anything running at its awaits.
\<close>

datatype await_point =
  AwaitPullRequests | AwaitAccount | AwaitCommit | AwaitApiAccount | AwaitChecks

type_synonym schedule = "await_point \<Rightarrow> repo list"

definition suspended :: "schedule \<Rightarrow> await_point \<Rightarrow> store \<Rightarrow> store" where
  "suspended sched p st = foldl (\<lambda>s r. selectRepository r s) st (sched p)"

definition getAccountForRepository ::
  "env \<Rightarrow> schedule \<Rightarrow> await_point \<Rightarrow> github_repo \<Rightarrow> store \<Rightarrow> account option \<times> store" where
  "getAccountForRepository e sched p gh st =
     (let st1 = suspended sched p (call AccountsGetAll st);
          accounts = accountsStore_getAll e
      in (find (\<lambda>a. account_endpoint a = endpoint gh) accounts, st1))"

definition getAPIForRepository ::
  "env \<Rightarrow> schedule \<Rightarrow> github_repo \<Rightarrow> store \<Rightarrow> api_client option \<times> store" where
  "getAPIForRepository e sched gh st =
     (case getAccountForRepository e sched AwaitApiAccount gh st of
        (None, st1) \<Rightarrow> (None, st1)
      | (Some account, st1) \<Rightarrow> (Some (API_fromAccount account), st1))"

text \<open>
  The body of the notification, as the template literal of
  \<^verbatim>\<open>postChecksFailedNotification\<close> builds it from \<^verbatim>\<open>pluralChecks\<close> and \<^verbatim>\<open>shortSHA\<close>;
  \<^verbatim>\<open>sha.slice(0, 9)\<close> is the first nine characters, or all of a shorter string.
\<close>

definition notificationBody :: "pull_request \<Rightarrow> string \<Rightarrow> nat \<Rightarrow> string" where
  "notificationBody pullRequest sha numberOfFailedChecks =
     (let pluralChecks = (if numberOfFailedChecks = 1 then ''check was'' else ''checks were'');
          shortSHA = take 9 sha
      in pr_title pullRequest @ '' #'' @ string_of_nat (pullRequestNumber pullRequest) @
         '' ('' @ shortSHA @ '')'' @ [CHR 0x0A] @
         string_of_nat numberOfFailedChecks @ '' '' @ pluralChecks @ '' not successful.'')"

definition postChecksFailedNotification ::
  "pull_request \<Rightarrow> ref_check list \<Rightarrow> string \<Rightarrow> string \<Rightarrow> store \<Rightarrow> store" where
  "postChecksFailedNotification pullRequest cs commitSha commitMessage st =
     (case repository st of
        None \<Rightarrow> st
      | Some repo \<Rightarrow>
          let numberOfFailedChecks =
                length (filter (\<lambda>check. conclusion check = Some Failure) cs)
          in if numberOfFailedChecks = 0 then st
             else call (NotificationShow
                    \<lparr>title = ''Pull Request checks failed'',
                     body = notificationBody pullRequest commitSha numberOfFailedChecks,
                     on_click = \<lparr>cb_repository = repo, cb_pullRequest = pullRequest,
                       cb_commitMessage = commitMessage, cb_commitSha = commitSha,
                       cb_checkRuns = cs\<rparr>\<rparr>) st)"

text \<open>A click on a shown notification runs its handler in the store's state then.\<close>

definition click :: "notification \<Rightarrow> store \<Rightarrow> store" where
  "click n st =
     (case onChecksFailedCallback st of
        None \<Rightarrow> st
      | Some callback \<Rightarrow> call (ChecksFailedCallback callback (on_click n)) st)"

definition getChecksForRef ::
  "env \<Rightarrow> schedule \<Rightarrow> repo_with_github \<Rightarrow> string \<Rightarrow> store \<Rightarrow> ref_check list option \<times> store" where
  "getChecksForRef e sched repo ref st =
     (let gh = rwg_gitHubRepository repo in
      (case getAPIForRepository e sched gh st of
         (None, st1) \<Rightarrow> (None, st1)
       | (Some api, st1) \<Rightarrow>
           (let st2 = suspended sched AwaitChecks
                        (call (FetchRefCheckRuns api (owner_login gh) (gh_name gh) ref)
                          (call (FetchCombinedRefStatus api (owner_login gh) (gh_name gh) ref) st1))
            in (case fetchCombinedRefStatus e api (owner_login gh) (gh_name gh) ref of
                  None \<Rightarrow> (None, st2)
                | Some sts \<Rightarrow>
                    (case fetchRefCheckRuns e api (owner_login gh) (gh_name gh) ref of
                       None \<Rightarrow> (None, st2)
                     | Some checkRuns \<Rightarrow>
                         (let latestCheckRunsByName =
                                getLatestCheckRunsByName e (check_runs checkRuns);
                              cs = map (apiStatusToRefCheck e) (statuses sts) @
                                   map (apiCheckRunToRefCheck e) latestCheckRunsByName
                          in (case createCombinedCheckFromChecks cs of
                                None \<Rightarrow> (None, st2)
                              | Some check \<Rightarrow>
                                  (if length (checks check) = 0 then (None, st2)
                                   else (Some (checks check), st2)))))))))"

text \<open>
  The commit of an event: the cached one, or else the one fetched, which suspends the
  handler.
\<close>

definition resolveCommit ::
  "env \<Rightarrow> schedule \<Rightarrow> repo_with_github \<Rightarrow> string \<Rightarrow> store \<Rightarrow> commit option \<times> store" where
  "resolveCommit e sched repo commitSHA st =
     (case cachedCommits st commitSHA of
        Some c \<Rightarrow> (Some c, st)
      | None \<Rightarrow>
          (getCommit e repo commitSHA,
           suspended sched AwaitCommit (call (GetCommit repo commitSHA) st)))"

definition handleChecksFailedEvent ::
  "env \<Rightarrow> schedule \<Rightarrow> desktop_alive_event \<Rightarrow> store \<Rightarrow> store" where
  "handleChecksFailedEvent e sched event st =
     (case repository st of
        None \<Rightarrow> st
      | Some repo \<Rightarrow>
          (let st1 = suspended sched AwaitPullRequests (call (GetAllPullRequests repo) st);
               pullRequests = getAllPullRequests e repo
           in (case find (\<lambda>pr. pullRequestNumber pr = pull_request_number event) pullRequests of
                 None \<Rightarrow> st1
               | Some pullRequest \<Rightarrow>
                   (case getAccountForRepository e sched AwaitAccount
                           (rwg_gitHubRepository repo) st1 of
                      (None, st2) \<Rightarrow> st2
                    | (Some account, st2) \<Rightarrow>
                        (let commitSHA = commit_sha event in
                         (if commitSHA \<in> skipCommitShas st2 then st2
                          else
                            (case resolveCommit e sched repo commitSHA st2 of
                               (None, st3) \<Rightarrow>
                                 st3\<lparr>skipCommitShas := insert commitSHA (skipCommitShas st3)\<rparr>
                             | (Some commit, st3) \<Rightarrow>
                                 (let st4 = st3\<lparr>cachedCommits :=
                                               (cachedCommits st3)(commitSHA \<mapsto> commit)\<rparr>
                                  in (if \<not> (author_email commit \<in> set (map email (emails account)))
                                      then st4\<lparr>skipCommitShas :=
                                             insert commitSHA (skipCommitShas st4)\<rparr>
                                      else
                                        (case getChecksForRef e sched repo
                                                (head_ref pullRequest) st4 of
                                           (None, st5) \<Rightarrow> st5
                                         | (Some cs, st5) \<Rightarrow>
                                             postChecksFailedNotification pullRequest cs
                                               commitSHA (summary commit) st5))))))))))"

definition onAliveEventReceived ::
  "env \<Rightarrow> schedule \<Rightarrow> desktop_alive_event \<Rightarrow> store \<Rightarrow> store" where
  "onAliveEventReceived e sched ev st =
     (if event_type ev = ''pr-checks-failed'' then handleChecksFailedEvent e sched ev st
      else st)"


section \<open>The handler with anything running at its awaits\<close>

text \<open>
  The constructor registers \<^verbatim>\<open>onAliveEventReceived\<close> as a callback and nothing queues
  the events, so while a handler is suspended at an \<^verbatim>\<open>await\<close> another event's handler
  can run and write the Commit Cache and the Skip Set. The definitions below are the
  same methods with, at each point of suspension, an arbitrary change of the store in
  place of the selections of a schedule; the methods above are the case where that
  change is \<open>suspended sched\<close>.
\<close>

type_synonym interference = "await_point \<Rightarrow> store \<Rightarrow> store"

definition getAccountForRepositoryDuring ::
  "env \<Rightarrow> interference \<Rightarrow> await_point \<Rightarrow> github_repo \<Rightarrow> store \<Rightarrow> account option \<times> store" where
  "getAccountForRepositoryDuring e w p gh st =
     (let st1 = w p (call AccountsGetAll st);
          accounts = accountsStore_getAll e
      in (find (\<lambda>a. account_endpoint a = endpoint gh) accounts, st1))"

definition getAPIForRepositoryDuring ::
  "env \<Rightarrow> interference \<Rightarrow> github_repo \<Rightarrow> store \<Rightarrow> api_client option \<times> store" where
  "getAPIForRepositoryDuring e w gh st =
     (case getAccountForRepositoryDuring e w AwaitApiAccount gh st of
        (None, st1) \<Rightarrow> (None, st1)
      | (Some account, st1) \<Rightarrow> (Some (API_fromAccount account), st1))"

definition getChecksForRefDuring ::
  "env \<Rightarrow> interference \<Rightarrow> repo_with_github \<Rightarrow> string \<Rightarrow> store \<Rightarrow> ref_check list option \<times> store" where
  "getChecksForRefDuring e w repo ref st =
     (let gh = rwg_gitHubRepository repo in
      (case getAPIForRepositoryDuring e w gh st of
         (None, st1) \<Rightarrow> (None, st1)
       | (Some api, st1) \<Rightarrow>
           (let st2 = w AwaitChecks
                        (call (FetchRefCheckRuns api (owner_login gh) (gh_name gh) ref)
                          (call (FetchCombinedRefStatus api (owner_login gh) (gh_name gh) ref) st1))
            in (case fetchCombinedRefStatus e api (owner_login gh) (gh_name gh) ref of
                  None \<Rightarrow> (None, st2)
                | Some sts \<Rightarrow>
                    (case fetchRefCheckRuns e api (owner_login gh) (gh_name gh) ref of
                       None \<Rightarrow> (None, st2)
                     | Some checkRuns \<Rightarrow>
                         (let latestCheckRunsByName =
                                getLatestCheckRunsByName e (check_runs checkRuns);
                              cs = map (apiStatusToRefCheck e) (statuses sts) @
                                   map (apiCheckRunToRefCheck e) latestCheckRunsByName
                          in (case createCombinedCheckFromChecks cs of
                                None \<Rightarrow> (None, st2)
                              | Some check \<Rightarrow>
                                  (if length (checks check) = 0 then (None, st2)
                                   else (Some (checks check), st2)))))))))"

definition resolveCommitDuring ::
  "env \<Rightarrow> interference \<Rightarrow> repo_with_github \<Rightarrow> string \<Rightarrow> store \<Rightarrow> commit option \<times> store" where
  "resolveCommitDuring e w repo commitSHA st =
     (case cachedCommits st commitSHA of
        Some c \<Rightarrow> (Some c, st)
      | None \<Rightarrow>
          (getCommit e repo commitSHA,
           w AwaitCommit (call (GetCommit repo commitSHA) st)))"

definition handleChecksFailedEventDuring ::
  "env \<Rightarrow> interference \<Rightarrow> desktop_alive_event \<Rightarrow> store \<Rightarrow> store" where
  "handleChecksFailedEventDuring e w event st =
     (case repository st of
        None \<Rightarrow> st
      | Some repo \<Rightarrow>
          (let st1 = w AwaitPullRequests (call (GetAllPullRequests repo) st);
               pullRequests = getAllPullRequests e repo
           in (case find (\<lambda>pr. pullRequestNumber pr = pull_request_number event) pullRequests of
                 None \<Rightarrow> st1
               | Some pullRequest \<Rightarrow>
                   (case getAccountForRepositoryDuring e w AwaitAccount
                           (rwg_gitHubRepository repo) st1 of
                      (None, st2) \<Rightarrow> st2
                    | (Some account, st2) \<Rightarrow>
                        (let commitSHA = commit_sha event in
                         (if commitSHA \<in> skipCommitShas st2 then st2
                          else
                            (case resolveCommitDuring e w repo commitSHA st2 of
                               (None, st3) \<Rightarrow>
                                 st3\<lparr>skipCommitShas := insert commitSHA (skipCommitShas st3)\<rparr>
                             | (Some commit, st3) \<Rightarrow>
                                 (let st4 = st3\<lparr>cachedCommits :=
                                               (cachedCommits st3)(commitSHA \<mapsto> commit)\<rparr>
                                  in (if \<not> (author_email commit \<in> set (map email (emails account)))
                                      then st4\<lparr>skipCommitShas :=
                                             insert commitSHA (skipCommitShas st4)\<rparr>
                                      else
                                        (case getChecksForRefDuring e w repo
                                                (head_ref pullRequest) st4 of
                                           (None, st5) \<Rightarrow> st5
                                         | (Some cs, st5) \<Rightarrow>
                                             postChecksFailedNotification pullRequest cs
                                               commitSHA (summary commit) st5))))))))))"

section \<open>Auxiliary definitions\<close>

text \<open>
  Calls of \<^verbatim>\<open>selectRepository\<close> overwrite the selection: after a sequence of them
  the selection is what the last one set, and an empty sequence leaves it alone.
\<close>

definition selection_after :: "repo list \<Rightarrow> repo_with_github option \<Rightarrow> repo_with_github option" where
  "selection_after rs sel = (if rs = [] then sel else narrowed (last rs))"

text \<open>
  The list that \<^verbatim>\<open>getChecksForRef\<close> answers once it has an API client, as a function
  of what the two fetches answer.
\<close>

definition checksFor :: "env \<Rightarrow> api_client \<Rightarrow> github_repo \<Rightarrow> string \<Rightarrow> ref_check list option" where
  "checksFor e api gh ref =
     (case fetchCombinedRefStatus e api (owner_login gh) (gh_name gh) ref of
        None \<Rightarrow> None
      | Some sts \<Rightarrow>
          (case fetchRefCheckRuns e api (owner_login gh) (gh_name gh) ref of
             None \<Rightarrow> None
           | Some runs \<Rightarrow>
               (let cs = map (apiStatusToRefCheck e) (statuses sts) @
                         map (apiCheckRunToRefCheck e)
                           (getLatestCheckRunsByName e (check_runs runs))
                in if cs = [] then None else Some cs)))"

text \<open>Reading a decimal numeral back, to check \<open>string_of_nat\<close> against.\<close>

definition digit_value :: "char \<Rightarrow> nat" where
  "digit_value c = of_char c - 48"

definition nat_of_string :: "string \<Rightarrow> nat" where
  "nat_of_string cs = foldl (\<lambda>a c. 10 * a + digit_value c) 0 cs"

section \<open>A concrete scenario\<close>

text \<open>
  Two repositories on github.com and one without a remote, a signed-in account, a pull
  request of the first repository with two commits (one by the account's user, one by
  a colleague), and the answers of the REST API for the pull request's branch.
\<close>

definition desktopGitHub :: github_repo where
  "desktopGitHub =
     \<lparr>endpoint = ''https://api.github.com'', owner_login = ''desktop'', gh_name = ''desktop''\<rparr>"

definition dugiteGitHub :: github_repo where
  "dugiteGitHub =
     \<lparr>endpoint = ''https://api.github.com'', owner_login = ''desktop'', gh_name = ''dugite''\<rparr>"

definition desktopRepo :: repo where
  "desktopRepo = \<lparr>repo_path = ''/src/desktop'', gitHubRepository = Some desktopGitHub\<rparr>"

definition dugiteRepo :: repo where
  "dugiteRepo = \<lparr>repo_path = ''/src/dugite'', gitHubRepository = Some dugiteGitHub\<rparr>"

definition scratchRepo :: repo where
  "scratchRepo = \<lparr>repo_path = ''/tmp/scratch'', gitHubRepository = None\<rparr>"

definition desktopSelected :: repo_with_github where
  "desktopSelected = \<lparr>rwg_path = ''/src/desktop'', rwg_gitHubRepository = desktopGitHub\<rparr>"

definition dugiteSelected :: repo_with_github where
  "dugiteSelected = \<lparr>rwg_path = ''/src/dugite'', rwg_gitHubRepository = dugiteGitHub\<rparr>"

definition userAccount :: account where
  "userAccount =
     \<lparr>account_endpoint = ''https://api.github.com'',
      emails = [\<lparr>email = ''me@example.com''\<rparr>, \<lparr>email = ''me@work.example''\<rparr>]\<rparr>"

definition enterpriseAccount :: account where
  "enterpriseAccount =
     \<lparr>account_endpoint = ''https://ghe.example/api/v3'',
      emails = [\<lparr>email = ''me@work.example''\<rparr>]\<rparr>"

definition fixPullRequest :: pull_request where
  "fixPullRequest = \<lparr>pullRequestNumber = 42, pr_title = ''Fix bug'', head_ref = ''fix-bug''\<rparr>"

definition ownCommit :: commit where
  "ownCommit =
     \<lparr>commit_id = ''abc1234567890'', author_email = ''me@example.com'',
      summary = ''Fix the bug''\<rparr>"

definition colleagueCommit :: commit where
  "colleagueCommit =
     \<lparr>commit_id = ''fedcba9876543'', author_email = ''you@example.com'',
      summary = ''Review fixes''\<rparr>"

definition lintStatus :: api_ref_status_item where
  "lintStatus = \<lparr>status_context = ''ci/lint'', status_state = ''failure''\<rparr>"

definition buildRun :: api_check_run where
  "buildRun = \<lparr>run_id = 2, run_name = ''build'', run_conclusion = Some Failure\<rparr>"

definition oldBuildRun :: api_check_run where
  "oldBuildRun = \<lparr>run_id = 1, run_name = ''build'', run_conclusion = Some Success\<rparr>"

definition testRun :: api_check_run where
  "testRun = \<lparr>run_id = 3, run_name = ''test'', run_conclusion = Some Canceled\<rparr>"

text \<open>A stand-in for the deduplication: the first run of each name is kept.\<close>

fun firstRunByName :: "api_check_run list \<Rightarrow> api_check_run list" where
  "firstRunByName [] = []"
| "firstRunByName (r # rs) = r # filter (\<lambda>x. run_name x \<noteq> run_name r) (firstRunByName rs)"

definition statusToCheck :: "api_ref_status_item \<Rightarrow> ref_check" where
  "statusToCheck s =
     \<lparr>check_name = status_context s,
      conclusion = (if status_state s = ''failure'' then Some Failure
                    else if status_state s = ''success'' then Some Success else None)\<rparr>"

definition runToCheck :: "api_check_run \<Rightarrow> ref_check" where
  "runToCheck r = \<lparr>check_name = run_name r, conclusion = run_conclusion r\<rparr>"

definition lintCheck :: ref_check where
  "lintCheck = \<lparr>check_name = ''ci/lint'', conclusion = Some Failure\<rparr>"

definition buildCheck :: ref_check where
  "buildCheck = \<lparr>check_name = ''build'', conclusion = Some Failure\<rparr>"

definition testCheck :: ref_check where
  "testCheck = \<lparr>check_name = ''test'', conclusion = Some Canceled\<rparr>"

definition world :: env where
  "world =
     \<lparr>getAllPullRequests = (\<lambda>r. if rwg_path r = ''/src/desktop'' then [fixPullRequest] else []),
      accountsStore_getAll = [enterpriseAccount, userAccount],
      getCommit = (\<lambda>r s. if s = ''abc1234567890'' then Some ownCommit
                           else if s = ''fedcba9876543'' then Some colleagueCommit else None),
      fetchCombinedRefStatus = (\<lambda>api ownr nm ref.
         if ref = ''fix-bug'' then Some \<lparr>statuses = [lintStatus]\<rparr> else None),
      fetchRefCheckRuns = (\<lambda>api ownr nm ref.
         if ref = ''fix-bug'' then Some \<lparr>check_runs = [buildRun, oldBuildRun, testRun]\<rparr>
         else None),
      getLatestCheckRunsByName = firstRunByName,
      apiStatusToRefCheck = statusToCheck,
      apiCheckRunToRefCheck = runToCheck\<rparr>"

text \<open>The same world with nobody signed in to github.com.\<close>

definition signedOutWorld :: env where
  "signedOutWorld = world\<lparr>accountsStore_getAll := [enterpriseAccount]\<rparr>"

definition ownEvent :: desktop_alive_event where
  "ownEvent =
     \<lparr>event_type = ''pr-checks-failed'', pull_request_number = 42,
      commit_sha = ''abc1234567890''\<rparr>"

definition colleagueEvent :: desktop_alive_event where
  "colleagueEvent =
     \<lparr>event_type = ''pr-checks-failed'', pull_request_number = 42,
      commit_sha = ''fedcba9876543''\<rparr>"

definition reviewEvent :: desktop_alive_event where
  "reviewEvent =
     \<lparr>event_type = ''pr-review-submit'', pull_request_number = 42,
      commit_sha = ''abc1234567890''\<rparr>"

text \<open>The fields as the class initialises them, and the store once the user has
  registered a callback and selected the first repository.\<close>

definition initialStore :: store where
  "initialStore =
     \<lparr>repository = None, onChecksFailedCallback = None, cachedCommits = Map.empty,
      skipCommitShas = {}, localStorage = Map.empty, effects = []\<rparr>"

definition desktopStore :: store where
  "desktopStore = selectRepository desktopRepo (onChecksFailedNotification 7 initialStore)"

text \<open>Schedules: nothing happens while the handler is suspended; the user selects the
  second repository while the checks are fetched; the user selects it while the pull
  requests are listed; the user selects the repository without a remote while the
  checks are fetched.\<close>

definition idle :: schedule where
  "idle = (\<lambda>p. [])"

definition switchDuringChecks :: schedule where
  "switchDuringChecks = (\<lambda>p. if p = AwaitChecks then [dugiteRepo] else [])"

definition switchDuringPullRequests :: schedule where
  "switchDuringPullRequests = (\<lambda>p. if p = AwaitPullRequests then [dugiteRepo] else [])"

definition leaveDuringChecks :: schedule where
  "leaveDuringChecks = (\<lambda>p. if p = AwaitChecks then [scratchRepo] else [])"

text \<open>The store after the event for the colleague's commit, handled undisturbed.\<close>

definition afterColleague :: store where
  "afterColleague =
     \<lparr>repository = Some desktopSelected, onChecksFailedCallback = Some 7,
      cachedCommits = [''fedcba9876543'' \<mapsto> colleagueCommit],
      skipCommitShas = {''fedcba9876543''}, localStorage = Map.empty,
      effects = [GetAllPullRequests desktopSelected, AccountsGetAll,
        GetCommit desktopSelected ''fedcba9876543'']\<rparr>"

text \<open>The store after the event for the user's own commit, the user having selected
  the second repository while the pull requests were listed.\<close>

definition afterSwitch :: store where
  "afterSwitch = handleChecksFailedEvent world switchDuringPullRequests ownEvent desktopStore"

text \<open>
  Overlapping events: a world where the pull request is known in both repositories and
  the commit exists in the first only, and what runs while the first handler awaits its
  commit: the user selects the second repository and an event for the same SHA is
  handled there from start to end.
\<close>

definition overlapWorld :: env where
  "overlapWorld =
     world\<lparr>getAllPullRequests := (\<lambda>r. [fixPullRequest]),
           getCommit := (\<lambda>r s. if rwg_path r = ''/src/desktop'' \<and> s = ''abc1234567890''
                                then Some ownCommit else None)\<rparr>"

definition secondEventAfterSwitch :: interference where
  "secondEventAfterSwitch =
     (\<lambda>p s. if p = AwaitCommit
             then handleChecksFailedEvent overlapWorld idle ownEvent (selectRepository dugiteRepo s)
             else s)"

section \<open>Decimal numerals\<close>

lemma digit_value_nth:
  assumes "n < 10"
  shows "digit_value (''0123456789'' ! n) = n"
proof -
  have "\<forall>k \<in> set [0..<10]. digit_value (''0123456789'' ! k) = k"
    by (simp add: digit_value_def upt_rec [of _ 10] upt_rec [of _ "Suc _"])
  with assms show ?thesis
    by simp
qed

lemma nat_of_string_of_nat: "nat_of_string (string_of_nat n) = n"
proof (induction n rule: string_of_nat.induct)
  case (1 n)
  show ?case
  proof (cases "n < 10")
    case True
    then show ?thesis
      by (simp add: string_of_nat.simps [of n] nat_of_string_def digit_value_nth)
  next
    case False
    with 1 have "nat_of_string (string_of_nat (n div 10)) = n div 10"
      by simp
    with False show ?thesis
      by (simp add: string_of_nat.simps [of n] nat_of_string_def digit_value_nth)
  qed
qed

section \<open>How each step changes the store\<close>

lemma selectRepository_eq: "selectRepository r st = st\<lparr>repository := narrowed r\<rparr>"
  by (simp add: selectRepository_def isRepositoryWithGitHubRepository_def narrowed_def)

lemma foldl_selectRepository:
  "foldl (\<lambda>s r. selectRepository r s) st rs =
     st\<lparr>repository := selection_after rs (repository st)\<rparr>"
  by (induction rs arbitrary: st rule: rev_induct)
     (simp_all add: selection_after_def selectRepository_eq)

lemma suspended_eq:
  "suspended sched p st = st\<lparr>repository := selection_after (sched p) (repository st)\<rparr>"
  by (simp add: suspended_def foldl_selectRepository)

lemma getAccountForRepository_eq:
  "getAccountForRepository e sched p gh st =
     (find (\<lambda>a. account_endpoint a = endpoint gh) (accountsStore_getAll e),
      st\<lparr>repository := selection_after (sched p) (repository st),
         effects := effects st @ [AccountsGetAll]\<rparr>)"
  by (simp add: getAccountForRepository_def suspended_eq call_def)

lemma getChecksForRef_eq:
  "getChecksForRef e sched rp ref st =
     (case find (\<lambda>a. account_endpoint a = endpoint (rwg_gitHubRepository rp))
             (accountsStore_getAll e) of
        None \<Rightarrow>
          (None, st\<lparr>repository := selection_after (sched AwaitApiAccount) (repository st),
                    effects := effects st @ [AccountsGetAll]\<rparr>)
      | Some a \<Rightarrow>
          (checksFor e (API_fromAccount a) (rwg_gitHubRepository rp) ref,
           st\<lparr>repository := selection_after (sched AwaitChecks)
                   (selection_after (sched AwaitApiAccount) (repository st)),
              effects := effects st @
                [AccountsGetAll,
                 FetchCombinedRefStatus (API_fromAccount a)
                   (owner_login (rwg_gitHubRepository rp)) (gh_name (rwg_gitHubRepository rp)) ref,
                 FetchRefCheckRuns (API_fromAccount a)
                   (owner_login (rwg_gitHubRepository rp)) (gh_name (rwg_gitHubRepository rp)) ref]\<rparr>))"
  by (simp add: getChecksForRef_def getAPIForRepository_def getAccountForRepository_eq
      suspended_eq call_def checksFor_def createCombinedCheckFromChecks_def Let_def
      split: option.splits)

lemma resolveCommit_eq:
  "resolveCommit e sched rp s st =
     (case cachedCommits st s of
        Some c \<Rightarrow> (Some c, st)
      | None \<Rightarrow>
          (getCommit e rp s,
           st\<lparr>repository := selection_after (sched AwaitCommit) (repository st),
              effects := effects st @ [GetCommit rp s]\<rparr>))"
  by (simp add: resolveCommit_def suspended_eq call_def split: option.splits)

lemma postChecksFailedNotification_fields:
  "repository (postChecksFailedNotification pr cs s m st) = repository st"
  "onChecksFailedCallback (postChecksFailedNotification pr cs s m st) = onChecksFailedCallback st"
  "cachedCommits (postChecksFailedNotification pr cs s m st) = cachedCommits st"
  "skipCommitShas (postChecksFailedNotification pr cs s m st) = skipCommitShas st"
  by (simp_all add: postChecksFailedNotification_def call_def Let_def split: option.splits)

lemma call_neq: "call x st \<noteq> st"
proof
  assume "call x st = st"
  then have "effects (call x st) = effects st" by simp
  then show False by (simp add: call_def)
qed

lemma call_inject: "call x st = call y st \<Longrightarrow> x = y"
proof -
  assume "call x st = call y st"
  then have "effects (call x st) = effects (call y st)" by simp
  then show "x = y" by (simp add: call_def)
qed


section \<open>The event router\<close>

text \<open>
  Claim C9. For every incoming Alive event whose kind is not \<^verbatim>\<open>pr-checks-failed\<close>
  the handler has no observable effect: whatever the collaborators would answer and
  whatever the user does meanwhile, the store it leaves is the store it found, log of
  collaborator calls and notifications included, and there is no error branch.
\<close>

theorem onAliveEventReceived_other_kind:
  assumes "event_type ev \<noteq> ''pr-checks-failed''"
  shows "onAliveEventReceived e sched ev st = st"
  using assms by (simp add: onAliveEventReceived_def)

theorem onAliveEventReceived_other_kind_witness:
  "onAliveEventReceived world switchDuringChecks reviewEvent desktopStore = desktopStore"
  using onAliveEventReceived_other_kind [of reviewEvent world switchDuringChecks desktopStore]
  by (simp add: reviewEvent_def)

section \<open>The settings flag\<close>

text \<open>
  Claim C8. The value in effect is the persisted one, \<open>True\<close> when none is
  persisted. \<^verbatim>\<open>setNotificationsEnabled(v)\<close> with \<open>v\<close> the value in effect leaves
  the store as it is: nothing is written and \<^verbatim>\<open>AliveStore.setEnabled\<close> is not called.
  With another \<open>v\<close> it persists \<open>v\<close> and then calls \<^verbatim>\<open>AliveStore.setEnabled(v)\<close>, and
  nothing else. \<^verbatim>\<open>getNotificationsEnabled()\<close> answers the value in effect.
\<close>

theorem setNotificationsEnabled_spec:
  assumes "current = (case localStorage st NotificationsEnabledKey of None \<Rightarrow> True | Some b \<Rightarrow> b)"
  shows "getNotificationsEnabled st = current
    \<and> (v = current \<longrightarrow> setNotificationsEnabled v st = st)
    \<and> (v \<noteq> current \<longrightarrow>
          setNotificationsEnabled v st =
            st\<lparr>localStorage := (localStorage st)(NotificationsEnabledKey \<mapsto> v),
               effects := effects st @
                 [SetBoolean NotificationsEnabledKey v, AliveSetEnabled v]\<rparr>)
    \<and> getNotificationsEnabled (setNotificationsEnabled v st) = v"
  using assms
  by (auto simp add: setNotificationsEnabled_def getNotificationsEnabled_def getBoolean_def
      setBoolean_def call_def Let_def split: option.splits)

theorem setNotificationsEnabled_spec_witness:
  "getNotificationsEnabled initialStore = True
   \<and> setNotificationsEnabled True initialStore = initialStore
   \<and> effects (setNotificationsEnabled False initialStore) =
       [SetBoolean ''high-signal-notifications-enabled'' False, AliveSetEnabled False]
   \<and> localStorage (setNotificationsEnabled False initialStore)
         ''high-signal-notifications-enabled'' = Some False
   \<and> getNotificationsEnabled (setNotificationsEnabled False initialStore) = False"
  using setNotificationsEnabled_spec [of True initialStore True]
    setNotificationsEnabled_spec [of True initialStore False]
  by (simp add: initialStore_def NotificationsEnabledKey_def getNotificationsEnabled_def
      getBoolean_def)

section \<open>Composing and dispatching the notification\<close>

lemma postChecksFailedNotification_eq:
  assumes "repository st = Some r"
  shows "postChecksFailedNotification pr cs s m st =
     (if filter (\<lambda>check. conclusion check = Some Failure) cs = [] then st
      else call (NotificationShow
             \<lparr>title = ''Pull Request checks failed'',
              body = notificationBody pr s
                       (length (filter (\<lambda>check. conclusion check = Some Failure) cs)),
              on_click = \<lparr>cb_repository = r, cb_pullRequest = pr, cb_commitMessage = m,
                cb_commitSha = s, cb_checkRuns = cs\<rparr>\<rparr>) st)"
  using assms by (simp add: postChecksFailedNotification_def Let_def)

text \<open>
  Claim C5. With a repository selected, \<^verbatim>\<open>postChecksFailedNotification\<close> shows a
  notification if and only if at least one check has the conclusion \<^verbatim>\<open>failure\<close>;
  it then shows exactly one. Checks with any other conclusion, or with none, do not
  count: a list without a \<^verbatim>\<open>failure\<close> leaves the store as it is.
\<close>

theorem postChecksFailedNotification_iff_failure:
  assumes "repository st = Some r"
  shows "((\<exists>n. postChecksFailedNotification pr cs s m st = call (NotificationShow n) st)
            \<longleftrightarrow> 0 < length (filter (\<lambda>check. conclusion check = Some Failure) cs))
    \<and> (postChecksFailedNotification pr cs s m st = st
            \<longleftrightarrow> length (filter (\<lambda>check. conclusion check = Some Failure) cs) = 0)
    \<and> ((\<forall>check \<in> set cs. conclusion check \<noteq> Some Failure)
            \<longrightarrow> postChecksFailedNotification pr cs s m st = st)"
proof -
  let ?failed = "filter (\<lambda>check. conclusion check = Some Failure) cs"
  show ?thesis
  proof (cases "?failed = []")
    case True
    then have same: "postChecksFailedNotification pr cs s m st = st"
      using assms by (simp add: postChecksFailedNotification_eq)
    have "\<And>n. st \<noteq> call (NotificationShow n) st"
      using call_neq [of _ st] by (rule not_sym)
    with same True show ?thesis by (simp add: filter_empty_conv)
  next
    case False
    then have "\<exists>n. postChecksFailedNotification pr cs s m st = call (NotificationShow n) st"
      using assms by (auto simp add: postChecksFailedNotification_eq)
    moreover from this have "postChecksFailedNotification pr cs s m st \<noteq> st"
      using call_neq by metis
    moreover from False have "\<not> (\<forall>check \<in> set cs. conclusion check \<noteq> Some Failure)"
      by (simp add: filter_empty_conv)
    ultimately show ?thesis using False by simp
  qed
qed

theorem postChecksFailedNotification_iff_failure_witness:
  "postChecksFailedNotification fixPullRequest [testCheck] ''abc1234567890'' ''Fix the bug''
       desktopStore = desktopStore
   \<and> effects (postChecksFailedNotification fixPullRequest [testCheck, buildCheck]
         ''abc1234567890'' ''Fix the bug'' desktopStore) \<noteq> []"
  using postChecksFailedNotification_iff_failure [of desktopStore desktopSelected fixPullRequest
      "[testCheck]" "''abc1234567890''" "''Fix the bug''"]
    postChecksFailedNotification_iff_failure [of desktopStore desktopSelected fixPullRequest
      "[testCheck, buildCheck]" "''abc1234567890''" "''Fix the bug''"]
  by (auto simp add: desktopStore_def selectRepository_eq narrowed_def desktopRepo_def
      desktopSelected_def testCheck_def buildCheck_def call_def)

text \<open>
  Claim C6. The notification shown has the title \<^verbatim>\<open>Pull Request checks failed\<close> and
  the body made of the pull request's title, \<^verbatim>\<open> #\<close> and its number, the first nine
  characters of the SHA in parentheses, a line feed, the number of failed checks, and
  \<^verbatim>\<open>check was\<close> for one failed check or \<^verbatim>\<open>checks were\<close> for more, followed by
  \<^verbatim>\<open> not successful.\<close>
\<close>

theorem postChecksFailedNotification_text:
  assumes "repository st = Some r"
    and "n = length (filter (\<lambda>check. conclusion check = Some Failure) cs)"
    and "0 < n"
  shows "postChecksFailedNotification pr cs s m st =
     call (NotificationShow
       \<lparr>title = ''Pull Request checks failed'',
        body = pr_title pr @ '' #'' @ string_of_nat (pullRequestNumber pr) @
               '' ('' @ take 9 s @ '')'' @ [CHR 0x0A] @
               string_of_nat n @ '' '' @ (if n = 1 then ''check was'' else ''checks were'') @
               '' not successful.'',
        on_click = \<lparr>cb_repository = r, cb_pullRequest = pr, cb_commitMessage = m,
          cb_commitSha = s, cb_checkRuns = cs\<rparr>\<rparr>) st"
  using assms by (simp add: postChecksFailedNotification_eq notificationBody_def Let_def)

theorem postChecksFailedNotification_text_witness:
  "effects (postChecksFailedNotification fixPullRequest [testCheck, buildCheck]
       ''abc1234567890'' ''Fix the bug'' desktopStore) =
     [NotificationShow
       \<lparr>title = ''Pull Request checks failed'',
        body = ''Fix bug #42 (abc123456)'' @ [CHR 0x0A] @ ''1 check was not successful.'',
        on_click = \<lparr>cb_repository = desktopSelected, cb_pullRequest = fixPullRequest,
          cb_commitMessage = ''Fix the bug'', cb_commitSha = ''abc1234567890'',
          cb_checkRuns = [testCheck, buildCheck]\<rparr>\<rparr>]
   \<and> effects (postChecksFailedNotification fixPullRequest [lintCheck, buildCheck]
       ''abc1234567890'' ''Fix the bug'' desktopStore) =
     [NotificationShow
       \<lparr>title = ''Pull Request checks failed'',
        body = ''Fix bug #42 (abc123456)'' @ [CHR 0x0A] @ ''2 checks were not successful.'',
        on_click = \<lparr>cb_repository = desktopSelected, cb_pullRequest = fixPullRequest,
          cb_commitMessage = ''Fix the bug'', cb_commitSha = ''abc1234567890'',
          cb_checkRuns = [lintCheck, buildCheck]\<rparr>\<rparr>]"
  using postChecksFailedNotification_text [of desktopStore desktopSelected 1
      "[testCheck, buildCheck]" fixPullRequest "''abc1234567890''" "''Fix the bug''"]
    postChecksFailedNotification_text [of desktopStore desktopSelected 2
      "[lintCheck, buildCheck]" fixPullRequest "''abc1234567890''" "''Fix the bug''"]
  by (simp add: desktopStore_def selectRepository_eq narrowed_def desktopRepo_def
      desktopSelected_def testCheck_def buildCheck_def lintCheck_def call_def
      fixPullRequest_def string_of_nat.simps initialStore_def onChecksFailedNotification_def)


section \<open>Aggregating the checks of a ref\<close>

lemmas scenario_defs = world_def signedOutWorld_def desktopStore_def initialStore_def
  onChecksFailedNotification_def selectRepository_eq narrowed_def desktopRepo_def dugiteRepo_def
  scratchRepo_def desktopGitHub_def dugiteGitHub_def desktopSelected_def dugiteSelected_def
  userAccount_def enterpriseAccount_def fixPullRequest_def ownCommit_def colleagueCommit_def
  lintStatus_def buildRun_def oldBuildRun_def testRun_def statusToCheck_def runToCheck_def
  lintCheck_def buildCheck_def testCheck_def ownEvent_def colleagueEvent_def
  idle_def switchDuringChecks_def switchDuringPullRequests_def leaveDuringChecks_def

lemmas handler_eqs = handleChecksFailedEvent_def getAccountForRepository_eq resolveCommit_eq
  getChecksForRef_eq suspended_eq call_def Let_def

lemmas step_eqs = handler_eqs checksFor_def postChecksFailedNotification_def
  selection_after_def notificationBody_def

text \<open>
  Claim C4, amended. \<^verbatim>\<open>getChecksForRef\<close> returns null when no signed-in account has
  the endpoint of the repository, in which case no fetch is made. With an account, it
  returns null when the combined status is null, when the check runs are null, and when
  both are there but the combined list is empty; otherwise it returns the combined list,
  which is not empty.
\<close>

theorem getChecksForRef_result:
  assumes "gh = rwg_gitHubRepository rp"
  shows "fst (getChecksForRef e sched rp ref st) =
     (case find (\<lambda>a. account_endpoint a = endpoint gh) (accountsStore_getAll e) of
        None \<Rightarrow> None
      | Some a \<Rightarrow>
          (case fetchCombinedRefStatus e (API_fromAccount a) (owner_login gh) (gh_name gh) ref of
             None \<Rightarrow> None
           | Some sts \<Rightarrow>
               (case fetchRefCheckRuns e (API_fromAccount a) (owner_login gh) (gh_name gh) ref of
                  None \<Rightarrow> None
                | Some runs \<Rightarrow>
                    (if map (apiStatusToRefCheck e) (statuses sts) @
                        map (apiCheckRunToRefCheck e)
                          (getLatestCheckRunsByName e (check_runs runs)) = []
                     then None
                     else Some (map (apiStatusToRefCheck e) (statuses sts) @
                        map (apiCheckRunToRefCheck e)
                          (getLatestCheckRunsByName e (check_runs runs)))))))"
  using assms
  by (simp add: getChecksForRef_eq checksFor_def Let_def split: option.splits)

theorem getChecksForRef_result_witness:
  "fst (getChecksForRef world idle desktopSelected ''fix-bug'' desktopStore) =
     Some [lintCheck, buildCheck, testCheck]
   \<and> fst (getChecksForRef world idle desktopSelected ''main'' desktopStore) = None"
  using getChecksForRef_result [of desktopGitHub desktopSelected world idle "''fix-bug''" desktopStore]
    getChecksForRef_result [of desktopGitHub desktopSelected world idle "''main''" desktopStore]
  by (simp add: scenario_defs)

text \<open>
  The claim as it was stated fails where nobody is signed in to the repository's
  endpoint: neither fetch yields null (none is made, and each would answer), the
  combined list would not be empty, and the result is null all the same.
\<close>

theorem getChecksForRef_null_without_account:
  "fst (getChecksForRef signedOutWorld idle desktopSelected ''fix-bug'' desktopStore) = None
   \<and> effects (snd (getChecksForRef signedOutWorld idle desktopSelected ''fix-bug'' desktopStore))
       = [AccountsGetAll]
   \<and> fetchCombinedRefStatus signedOutWorld (API_fromAccount enterpriseAccount)
         ''desktop'' ''desktop'' ''fix-bug'' = Some \<lparr>statuses = [lintStatus]\<rparr>
   \<and> fetchRefCheckRuns signedOutWorld (API_fromAccount enterpriseAccount)
         ''desktop'' ''desktop'' ''fix-bug'' = Some \<lparr>check_runs = [buildRun, oldBuildRun, testRun]\<rparr>"
  by (simp add: getChecksForRef_eq scenario_defs)

text \<open>
  Claim C7. With an API client and both fetches answered, the combined list is the
  status entries, each converted by \<^verbatim>\<open>apiStatusToRefCheck\<close>, in their order, followed by
  the check runs that \<^verbatim>\<open>getLatestCheckRunsByName\<close> keeps, each converted by
  \<^verbatim>\<open>apiCheckRunToRefCheck\<close>; it is what \<^verbatim>\<open>getChecksForRef\<close> returns unless it is empty.
\<close>

theorem getChecksForRef_statuses_then_check_runs:
  assumes "gh = rwg_gitHubRepository rp"
    and "find (\<lambda>a. account_endpoint a = endpoint gh) (accountsStore_getAll e) = Some a"
    and "fetchCombinedRefStatus e (API_fromAccount a) (owner_login gh) (gh_name gh) ref = Some sts"
    and "fetchRefCheckRuns e (API_fromAccount a) (owner_login gh) (gh_name gh) ref = Some runs"
    and "latest = getLatestCheckRunsByName e (check_runs runs)"
    and "cs = map (apiStatusToRefCheck e) (statuses sts) @ map (apiCheckRunToRefCheck e) latest"
  shows "fst (getChecksForRef e sched rp ref st) = (if cs = [] then None else Some cs)
    \<and> length cs = length (statuses sts) + length latest
    \<and> (\<forall>i < length (statuses sts). cs ! i = apiStatusToRefCheck e (statuses sts ! i))
    \<and> (\<forall>j < length latest. cs ! (length (statuses sts) + j) = apiCheckRunToRefCheck e (latest ! j))"
proof -
  have "fst (getChecksForRef e sched rp ref st) = (if cs = [] then None else Some cs)"
    using assms by (simp add: getChecksForRef_eq checksFor_def Let_def)
  moreover have "length cs = length (statuses sts) + length latest"
    using assms(6) by simp
  moreover have "\<forall>i < length (statuses sts). cs ! i = apiStatusToRefCheck e (statuses sts ! i)"
    using assms(6) by (simp add: nth_append)
  moreover have "\<forall>j < length latest.
      cs ! (length (statuses sts) + j) = apiCheckRunToRefCheck e (latest ! j)"
    using assms(6) by (simp add: nth_append)
  ultimately show ?thesis by simp
qed

theorem getChecksForRef_statuses_then_check_runs_witness:
  "fst (getChecksForRef world switchDuringChecks desktopSelected ''fix-bug'' initialStore) =
     Some [statusToCheck lintStatus, runToCheck buildRun, runToCheck testRun]"
  using getChecksForRef_statuses_then_check_runs [of desktopGitHub desktopSelected world
      userAccount "''fix-bug''" "\<lparr>statuses = [lintStatus]\<rparr>"
      "\<lparr>check_runs = [buildRun, oldBuildRun, testRun]\<rparr>" "[buildRun, testRun]"
      "[statusToCheck lintStatus, runToCheck buildRun, runToCheck testRun]"
      switchDuringChecks initialStore]
  by (simp add: world_def desktopSelected_def desktopGitHub_def userAccount_def
      enterpriseAccount_def buildRun_def oldBuildRun_def testRun_def)


section \<open>Handling a failed-checks event\<close>

text \<open>The Skip Set only grows, and the handler never touches the callback.\<close>

lemma handleChecksFailedEvent_skip_mono:
  "skipCommitShas st \<subseteq> skipCommitShas (handleChecksFailedEvent e sched ev st)"
  by (auto simp add: handler_eqs postChecksFailedNotification_fields split: option.splits)

lemma handleChecksFailedEvent_callback:
  "onChecksFailedCallback (handleChecksFailedEvent e sched ev st) = onChecksFailedCallback st"
  by (simp add: handler_eqs postChecksFailedNotification_fields split: option.splits)

lemma handleChecksFailedEvent_skipped:
  assumes "commit_sha ev \<in> skipCommitShas st"
  shows "handleChecksFailedEvent e sched ev st =
     (case repository st of
        None \<Rightarrow> st
      | Some A \<Rightarrow>
          (case find (\<lambda>p. pullRequestNumber p = pull_request_number ev) (getAllPullRequests e A) of
             None \<Rightarrow>
               st\<lparr>repository := selection_after (sched AwaitPullRequests) (repository st),
                  effects := effects st @ [GetAllPullRequests A]\<rparr>
           | Some pr \<Rightarrow>
               st\<lparr>repository := selection_after (sched AwaitAccount)
                       (selection_after (sched AwaitPullRequests) (repository st)),
                  effects := effects st @ [GetAllPullRequests A, AccountsGetAll]\<rparr>))"
  using assms
  by (simp add: handleChecksFailedEvent_def getAccountForRepository_eq suspended_eq call_def
      Let_def split: option.splits)

lemma colleague_handled:
  "handleChecksFailedEvent world idle colleagueEvent desktopStore = afterColleague"
  by (simp add: step_eqs scenario_defs afterColleague_def)

text \<open>The methods of the store are the general ones with a schedule's selections.\<close>

lemma getAccountForRepository_suspended:
  "getAccountForRepository e sched p gh st =
     getAccountForRepositoryDuring e (suspended sched) p gh st"
  by (simp add: getAccountForRepository_def getAccountForRepositoryDuring_def)

lemma getChecksForRef_suspended:
  "getChecksForRef e sched rp ref st = getChecksForRefDuring e (suspended sched) rp ref st"
  by (simp add: getChecksForRef_def getChecksForRefDuring_def getAPIForRepository_def
      getAPIForRepositoryDuring_def getAccountForRepository_suspended)

lemma resolveCommit_suspended:
  "resolveCommit e sched rp s st = resolveCommitDuring e (suspended sched) rp s st"
  by (simp add: resolveCommit_def resolveCommitDuring_def)

lemma handleChecksFailedEvent_suspended:
  "handleChecksFailedEvent e sched ev st =
     handleChecksFailedEventDuring e (suspended sched) ev st"
  unfolding handleChecksFailedEvent_def handleChecksFailedEventDuring_def
    getAccountForRepository_suspended getChecksForRef_suspended resolveCommit_suspended
  by (rule refl)





text \<open>
  The proviso is needed. The user selects the second repository while the first
  handler awaits its commit, and an event for the same SHA is handled there: the commit
  is unknown in that repository, so the SHA goes to the Skip Set; the first handler then
  resumes, accepts the commit and caches it.
\<close>

lemma overlapping_event_adds_accepted_sha_to_skip_set:
  "cachedCommits (handleChecksFailedEventDuring overlapWorld secondEventAfterSwitch ownEvent
       desktopStore) ''abc1234567890'' = Some ownCommit
   \<and> author_email ownCommit \<in> set (map email (emails userAccount))
   \<and> ''abc1234567890'' \<in> skipCommitShas
        (handleChecksFailedEventDuring overlapWorld secondEventAfterSwitch ownEvent desktopStore)"
  by (simp add: handleChecksFailedEventDuring_def getAccountForRepositoryDuring_def
      resolveCommitDuring_def getChecksForRefDuring_def getAPIForRepositoryDuring_def
      createCombinedCheckFromChecks_def postChecksFailedNotification_fields
      secondEventAfterSwitch_def overlapWorld_def step_eqs scenario_defs)


text \<open>
  Claim C3, amended. If an event is abandoned because the author's email of its commit
  is not one of the account's, its SHA is in the Skip Set afterwards. In any later store
  whose Skip Set still holds it (the set only grows), an event with the same SHA calls
  nothing but the pull request list and the account lookup, which come before the Skip
  Set is consulted: no commit is fetched, no check is fetched, no notification is shown
  and the Commit Cache and the Skip Set stay as they are. When a repository is selected
  and the pull request and the account are found again, both of those calls are made.
\<close>

theorem author_mismatch_skips_later_events:
  assumes "repository st = Some A"
    and "find (\<lambda>p. pullRequestNumber p = pull_request_number ev) (getAllPullRequests e A) = Some pr"
    and "find (\<lambda>a. account_endpoint a = endpoint (rwg_gitHubRepository A))
           (accountsStore_getAll e) = Some acc"
    and "commit_sha ev \<notin> skipCommitShas st"
    and "(case cachedCommits st (commit_sha ev) of
            Some c \<Rightarrow> Some c
          | None \<Rightarrow> getCommit e A (commit_sha ev)) = Some k"
    and "author_email k \<notin> set (map email (emails acc))"
    and "st1 = handleChecksFailedEvent e sched ev st"
    and "skipCommitShas st1 \<subseteq> skipCommitShas later"
    and "commit_sha ev2 = commit_sha ev"
    and "st2 = handleChecksFailedEvent e2 sched2 ev2 later"
  shows "commit_sha ev \<in> skipCommitShas st1
    \<and> (\<exists>calls. effects st2 = effects later @ calls \<and>
          (\<forall>x \<in> set calls. x = AccountsGetAll \<or> (\<exists>r. x = GetAllPullRequests r)))
    \<and> cachedCommits st2 = cachedCommits later
    \<and> skipCommitShas st2 = skipCommitShas later
    \<and> (\<forall>A2 pr2 acc2.
          repository later = Some A2 \<and>
          find (\<lambda>p. pullRequestNumber p = pull_request_number ev2) (getAllPullRequests e2 A2)
            = Some pr2 \<and>
          find (\<lambda>a. account_endpoint a = endpoint (rwg_gitHubRepository A2))
            (accountsStore_getAll e2) = Some acc2
          \<longrightarrow> effects st2 = effects later @ [GetAllPullRequests A2, AccountsGetAll])"
proof -
  have first: "commit_sha ev \<in> skipCommitShas st1"
    using assms(1-7)
    by (auto simp add: handleChecksFailedEvent_def getAccountForRepository_eq suspended_eq
        call_def Let_def resolveCommit_eq split: option.splits)
  with assms(8,9) have skipped: "commit_sha ev2 \<in> skipCommitShas later"
    by auto
  have second: "st2 =
     (case repository later of
        None \<Rightarrow> later
      | Some A2 \<Rightarrow>
          (case find (\<lambda>p. pullRequestNumber p = pull_request_number ev2)
                  (getAllPullRequests e2 A2) of
             None \<Rightarrow>
               later\<lparr>repository := selection_after (sched2 AwaitPullRequests) (repository later),
                  effects := effects later @ [GetAllPullRequests A2]\<rparr>
           | Some pr2 \<Rightarrow>
               later\<lparr>repository := selection_after (sched2 AwaitAccount)
                       (selection_after (sched2 AwaitPullRequests) (repository later)),
                  effects := effects later @ [GetAllPullRequests A2, AccountsGetAll]\<rparr>))"
    unfolding assms(10) using skipped by (rule handleChecksFailedEvent_skipped)
  have calls: "\<exists>calls. effects st2 = effects later @ calls \<and>
          (\<forall>x \<in> set calls. x = AccountsGetAll \<or> (\<exists>r. x = GetAllPullRequests r))"
    unfolding second by (auto split: option.splits)
  have caches: "cachedCommits st2 = cachedCommits later \<and> skipCommitShas st2 = skipCommitShas later"
    unfolding second by (simp split: option.splits)
  have both: "\<forall>A2 pr2 acc2.
          repository later = Some A2 \<and>
          find (\<lambda>p. pullRequestNumber p = pull_request_number ev2) (getAllPullRequests e2 A2)
            = Some pr2 \<and>
          find (\<lambda>a. account_endpoint a = endpoint (rwg_gitHubRepository A2))
            (accountsStore_getAll e2) = Some acc2
          \<longrightarrow> effects st2 = effects later @ [GetAllPullRequests A2, AccountsGetAll]"
    unfolding second by (simp split: option.splits)
  from first calls caches both show ?thesis by simp
qed

theorem author_mismatch_skips_later_events_witness:
  "commit_sha colleagueEvent \<in> skipCommitShas afterColleague
   \<and> effects (handleChecksFailedEvent world switchDuringChecks colleagueEvent afterColleague) =
       effects afterColleague @ [GetAllPullRequests desktopSelected, AccountsGetAll]
   \<and> cachedCommits (handleChecksFailedEvent world switchDuringChecks colleagueEvent afterColleague)
       = cachedCommits afterColleague
   \<and> skipCommitShas (handleChecksFailedEvent world switchDuringChecks colleagueEvent afterColleague)
       = skipCommitShas afterColleague"
proof -
  have h1: "repository desktopStore = Some desktopSelected"
    by (simp add: scenario_defs)
  have h2: "find (\<lambda>p. pullRequestNumber p = pull_request_number colleagueEvent)
      (getAllPullRequests world desktopSelected) = Some fixPullRequest"
    by (simp add: world_def desktopSelected_def colleagueEvent_def fixPullRequest_def)
  have h3: "find (\<lambda>a. account_endpoint a = endpoint (rwg_gitHubRepository desktopSelected))
      (accountsStore_getAll world) = Some userAccount"
    by (simp add: world_def desktopSelected_def desktopGitHub_def enterpriseAccount_def
        userAccount_def)
  have h4: "commit_sha colleagueEvent \<notin> skipCommitShas desktopStore"
    by (simp add: scenario_defs)
  have h5: "(case cachedCommits desktopStore (commit_sha colleagueEvent) of
      Some c \<Rightarrow> Some c
    | None \<Rightarrow> getCommit world desktopSelected (commit_sha colleagueEvent)) = Some colleagueCommit"
    by (simp add: desktopStore_def initialStore_def onChecksFailedNotification_def
        selectRepository_eq world_def colleagueEvent_def)
  have h6: "author_email colleagueCommit \<notin> set (map email (emails userAccount))"
    by (simp add: colleagueCommit_def userAccount_def)
  have h7: "afterColleague = handleChecksFailedEvent world idle colleagueEvent desktopStore"
    by (simp add: colleague_handled)
  have h8: "skipCommitShas afterColleague \<subseteq> skipCommitShas afterColleague"
    by simp
  have h9: "commit_sha colleagueEvent = commit_sha colleagueEvent"
    by simp
  have h10: "handleChecksFailedEvent world switchDuringChecks colleagueEvent afterColleague =
      handleChecksFailedEvent world switchDuringChecks colleagueEvent afterColleague"
    by simp
  note fact = author_mismatch_skips_later_events [OF h1 h2 h3 h4 h5 h6 h7 h8 h9 h10]
  have r: "repository afterColleague = Some desktopSelected"
    by (simp add: afterColleague_def)
  from fact r h2 h3
  have "effects (handleChecksFailedEvent world switchDuringChecks colleagueEvent afterColleague) =
       effects afterColleague @ [GetAllPullRequests desktopSelected, AccountsGetAll]"
    by blast
  with fact show ?thesis by blast
qed

text \<open>
  The claim as it was stated fails for the second of two identical events: the SHA is in
  the Skip Set after the first, and the second still lists the pull requests and looks
  the account up before it returns.
\<close>

theorem skipped_event_still_calls_collaborators:
  "''fedcba9876543'' \<in> skipCommitShas (handleChecksFailedEvent world idle colleagueEvent desktopStore)
   \<and> effects (handleChecksFailedEvent world idle colleagueEvent
        (handleChecksFailedEvent world idle colleagueEvent desktopStore)) =
       [GetAllPullRequests desktopSelected, AccountsGetAll,
        GetCommit desktopSelected ''fedcba9876543'',
        GetAllPullRequests desktopSelected, AccountsGetAll]"
  by (simp add: step_eqs scenario_defs)


section \<open>The selection at dispatch\<close>

text \<open>
  An event that passes every filter ends in \<^verbatim>\<open>postChecksFailedNotification\<close>, run on
  the store as the awaited calls and the selections made meanwhile have left it.
\<close>

lemma handleChecksFailedEvent_dispatch:
  assumes "repository st = Some A"
    and "find (\<lambda>p. pullRequestNumber p = pull_request_number ev) (getAllPullRequests e A) = Some pr"
    and "find (\<lambda>a. account_endpoint a = endpoint (rwg_gitHubRepository A))
           (accountsStore_getAll e) = Some acc"
    and "commit_sha ev \<notin> skipCommitShas st"
    and "(case cachedCommits st (commit_sha ev) of
            Some c \<Rightarrow> Some c
          | None \<Rightarrow> getCommit e A (commit_sha ev)) = Some k"
    and "author_email k \<in> set (map email (emails acc))"
    and "fst (getChecksForRef e sched A (head_ref pr) st) = Some cs"
    and "gh = rwg_gitHubRepository A"
  shows "handleChecksFailedEvent e sched ev st =
     postChecksFailedNotification pr cs (commit_sha ev) (summary k)
       (st\<lparr>cachedCommits := (cachedCommits st)(commit_sha ev \<mapsto> k),
           repository :=
             selection_after (sched AwaitChecks)
               (selection_after (sched AwaitApiAccount)
                 ((case cachedCommits st (commit_sha ev) of
                     None \<Rightarrow> selection_after (sched AwaitCommit)
                   | Some c \<Rightarrow> (\<lambda>sel. sel))
                   (selection_after (sched AwaitAccount)
                     (selection_after (sched AwaitPullRequests) (Some A))))),
           effects := effects st @
             [GetAllPullRequests A, AccountsGetAll] @
             (case cachedCommits st (commit_sha ev) of
                None \<Rightarrow> [GetCommit A (commit_sha ev)]
              | Some c \<Rightarrow> []) @
             [AccountsGetAll,
              FetchCombinedRefStatus (API_fromAccount acc) (owner_login gh) (gh_name gh) (head_ref pr),
              FetchRefCheckRuns (API_fromAccount acc) (owner_login gh) (gh_name gh) (head_ref pr)]\<rparr>)"
proof -
  have cs: "checksFor e (API_fromAccount acc) (rwg_gitHubRepository A) (head_ref pr) = Some cs"
    using assms(3,7) by (simp add: getChecksForRef_eq)
  show ?thesis
  proof (cases "cachedCommits st (commit_sha ev)")
    case None
    with assms cs show ?thesis
      by (simp add: handler_eqs)
  next
    case (Some c)
    with assms cs show ?thesis
      by (simp add: handler_eqs)
  qed
qed

text \<open>
  Claim C10. Take an event that passes every filter for the repository \<open>A\<close> selected
  when it arrives, with at least one failed check, and let \<open>B\<close> be the selection when
  the handler dispatches, which is the selection in the store it leaves (dispatch is its
  last, synchronous step). Whatever \<open>B\<close> is, as long as there is one, the notification
  is shown, after the collaborator calls and as the only notification; a click on it
  invokes the callback registered then with \<open>B\<close> as the repository, together with the
  pull request, the commit message, the SHA and the checks resolved for \<open>A\<close>.
\<close>

theorem switched_repository_still_notifies:
  assumes "repository st = Some A"
    and "find (\<lambda>p. pullRequestNumber p = pull_request_number ev) (getAllPullRequests e A) = Some pr"
    and "find (\<lambda>a. account_endpoint a = endpoint (rwg_gitHubRepository A))
           (accountsStore_getAll e) = Some acc"
    and "commit_sha ev \<notin> skipCommitShas st"
    and "(case cachedCommits st (commit_sha ev) of
            Some c \<Rightarrow> Some c
          | None \<Rightarrow> getCommit e A (commit_sha ev)) = Some k"
    and "author_email k \<in> set (map email (emails acc))"
    and "fst (getChecksForRef e sched A (head_ref pr) st) = Some cs"
    and "0 < length (filter (\<lambda>check. conclusion check = Some Failure) cs)"
    and "st' = handleChecksFailedEvent e sched ev st"
    and "repository st' = Some B"
    and "args = \<lparr>cb_repository = B, cb_pullRequest = pr, cb_commitMessage = summary k,
           cb_commitSha = commit_sha ev, cb_checkRuns = cs\<rparr>"
    and "n = \<lparr>title = ''Pull Request checks failed'',
           body = notificationBody pr (commit_sha ev)
                    (length (filter (\<lambda>check. conclusion check = Some Failure) cs)),
           on_click = args\<rparr>"
  shows "(\<exists>calls. effects st' = effects st @ calls @ [NotificationShow n]
            \<and> (\<forall>x \<in> set calls. \<forall>m. x \<noteq> NotificationShow m))
    \<and> (\<forall>s cb. onChecksFailedCallback s = Some cb \<longrightarrow>
          click n s = call (ChecksFailedCallback cb args) s)"
proof -
  define gh where "gh = rwg_gitHubRepository A"
  define calls where "calls =
     [GetAllPullRequests A, AccountsGetAll] @
     (case cachedCommits st (commit_sha ev) of
        None \<Rightarrow> [GetCommit A (commit_sha ev)]
      | Some c \<Rightarrow> []) @
     [AccountsGetAll,
      FetchCombinedRefStatus (API_fromAccount acc) (owner_login gh) (gh_name gh) (head_ref pr),
      FetchRefCheckRuns (API_fromAccount acc) (owner_login gh) (gh_name gh) (head_ref pr)]"
  define mid where "mid =
     st\<lparr>cachedCommits := (cachedCommits st)(commit_sha ev \<mapsto> k),
        repository :=
          selection_after (sched AwaitChecks)
            (selection_after (sched AwaitApiAccount)
              ((case cachedCommits st (commit_sha ev) of
                  None \<Rightarrow> selection_after (sched AwaitCommit)
                | Some c \<Rightarrow> (\<lambda>sel. sel))
                (selection_after (sched AwaitAccount)
                  (selection_after (sched AwaitPullRequests) (Some A))))),
        effects := effects st @ calls\<rparr>"
  have run: "st' = postChecksFailedNotification pr cs (commit_sha ev) (summary k) mid"
    unfolding assms(9) mid_def calls_def
    by (rule handleChecksFailedEvent_dispatch [OF assms(1-7) gh_def])
  then have "repository mid = Some B"
    using assms(10) by (simp add: postChecksFailedNotification_fields)
  then have "st' = call (NotificationShow n) mid"
    using assms(8,11,12) run by (simp add: postChecksFailedNotification_eq)
  then have "effects st' = effects st @ calls @ [NotificationShow n]"
    by (simp add: call_def mid_def)
  moreover have "\<forall>x \<in> set calls. \<forall>m. x \<noteq> NotificationShow m"
    by (auto simp add: calls_def split: option.splits)
  moreover have "\<forall>s cb. onChecksFailedCallback s = Some cb \<longrightarrow>
          click n s = call (ChecksFailedCallback cb args) s"
    using assms(12) by (simp add: click_def)
  ultimately show ?thesis by blast
qed

theorem switched_repository_still_notifies_witness:
  "repository desktopStore = Some desktopSelected
   \<and> repository afterSwitch = Some dugiteSelected
   \<and> dugiteSelected \<noteq> desktopSelected
   \<and> last (effects afterSwitch) =
       NotificationShow
         \<lparr>title = ''Pull Request checks failed'',
          body = ''Fix bug #42 (abc123456)'' @ [CHR 0x0A] @ ''2 checks were not successful.'',
          on_click = \<lparr>cb_repository = dugiteSelected, cb_pullRequest = fixPullRequest,
            cb_commitMessage = ''Fix the bug'', cb_commitSha = ''abc1234567890'',
            cb_checkRuns = [lintCheck, buildCheck, testCheck]\<rparr>\<rparr>"
proof -
  let ?args = "\<lparr>cb_repository = dugiteSelected, cb_pullRequest = fixPullRequest,
      cb_commitMessage = summary ownCommit, cb_commitSha = commit_sha ownEvent,
      cb_checkRuns = [lintCheck, buildCheck, testCheck]\<rparr>"
  let ?n = "\<lparr>title = ''Pull Request checks failed'',
      body = notificationBody fixPullRequest (commit_sha ownEvent)
        (length (filter (\<lambda>check. conclusion check = Some Failure)
           [lintCheck, buildCheck, testCheck])),
      on_click = ?args\<rparr>"
  have h1: "repository desktopStore = Some desktopSelected"
    by (simp add: scenario_defs)
  have h2: "find (\<lambda>p. pullRequestNumber p = pull_request_number ownEvent)
      (getAllPullRequests world desktopSelected) = Some fixPullRequest"
    by (simp add: world_def desktopSelected_def ownEvent_def fixPullRequest_def)
  have h3: "find (\<lambda>a. account_endpoint a = endpoint (rwg_gitHubRepository desktopSelected))
      (accountsStore_getAll world) = Some userAccount"
    by (simp add: world_def desktopSelected_def desktopGitHub_def enterpriseAccount_def
        userAccount_def)
  have h4: "commit_sha ownEvent \<notin> skipCommitShas desktopStore"
    by (simp add: scenario_defs)
  have h5: "(case cachedCommits desktopStore (commit_sha ownEvent) of
      Some c \<Rightarrow> Some c
    | None \<Rightarrow> getCommit world desktopSelected (commit_sha ownEvent)) = Some ownCommit"
    by (simp add: desktopStore_def initialStore_def onChecksFailedNotification_def
        selectRepository_eq world_def ownEvent_def)
  have h6: "author_email ownCommit \<in> set (map email (emails userAccount))"
    by (simp add: ownCommit_def userAccount_def)
  have h7: "fst (getChecksForRef world switchDuringPullRequests desktopSelected
      (head_ref fixPullRequest) desktopStore) = Some [lintCheck, buildCheck, testCheck]"
    by (simp add: getChecksForRef_eq checksFor_def scenario_defs)
  have h8: "0 < length (filter (\<lambda>check. conclusion check = Some Failure)
      [lintCheck, buildCheck, testCheck])"
    by (simp add: lintCheck_def)
  have h10: "repository afterSwitch = Some dugiteSelected"
    by (simp add: afterSwitch_def step_eqs scenario_defs)
  note fact = switched_repository_still_notifies [OF h1 h2 h3 h4 h5 h6 h7 h8 afterSwitch_def h10
      refl refl]
  then have a: "last (effects afterSwitch) = NotificationShow ?n"
    by auto
  have b: "?n = \<lparr>title = ''Pull Request checks failed'',
          body = ''Fix bug #42 (abc123456)'' @ [CHR 0x0A] @ ''2 checks were not successful.'',
          on_click = \<lparr>cb_repository = dugiteSelected, cb_pullRequest = fixPullRequest,
            cb_commitMessage = ''Fix the bug'', cb_commitSha = ''abc1234567890'',
            cb_checkRuns = [lintCheck, buildCheck, testCheck]\<rparr>\<rparr>"
    by (simp add: notificationBody_def fixPullRequest_def ownEvent_def ownCommit_def
        lintCheck_def buildCheck_def testCheck_def string_of_nat.simps)
  have c: "dugiteSelected \<noteq> desktopSelected"
    by (simp add: dugiteSelected_def desktopSelected_def)
  from a b have d: "last (effects afterSwitch) =
       NotificationShow
         \<lparr>title = ''Pull Request checks failed'',
          body = ''Fix bug #42 (abc123456)'' @ [CHR 0x0A] @ ''2 checks were not successful.'',
          on_click = \<lparr>cb_repository = dugiteSelected, cb_pullRequest = fixPullRequest,
            cb_commitMessage = ''Fix the bug'', cb_commitSha = ''abc1234567890'',
            cb_checkRuns = [lintCheck, buildCheck, testCheck]\<rparr>\<rparr>"
    by (simp only:)
  from h1 h10 c d show ?thesis by blast
qed

text \<open>
  Claim C1 asks that no notification be posted for the repository an event arrived for
  once the user has selected another one before the checks are fetched. The handler
  reads the selection again at dispatch but only tests it for null: with a second
  repository that has a GitHub remote selected while the checks are fetched, the
  notification for the first repository's pull request is shown, and its click handler
  holds the second repository.
\<close>

theorem stale_repository_notification_shown:
  "repository desktopStore = Some desktopSelected
   \<and> repository (handleChecksFailedEvent world switchDuringChecks ownEvent desktopStore)
       = Some dugiteSelected
   \<and> effects (handleChecksFailedEvent world switchDuringChecks ownEvent desktopStore) =
     [GetAllPullRequests desktopSelected, AccountsGetAll,
      GetCommit desktopSelected ''abc1234567890'', AccountsGetAll,
      FetchCombinedRefStatus (API_fromAccount userAccount) ''desktop'' ''desktop'' ''fix-bug'',
      FetchRefCheckRuns (API_fromAccount userAccount) ''desktop'' ''desktop'' ''fix-bug'',
      NotificationShow
        \<lparr>title = ''Pull Request checks failed'',
         body = ''Fix bug #42 (abc123456)'' @ [CHR 0x0A] @ ''2 checks were not successful.'',
         on_click = \<lparr>cb_repository = dugiteSelected, cb_pullRequest = fixPullRequest,
           cb_commitMessage = ''Fix the bug'', cb_commitSha = ''abc1234567890'',
           cb_checkRuns = [lintCheck, buildCheck, testCheck]\<rparr>\<rparr>]"
  by (simp add: step_eqs scenario_defs string_of_nat.simps)

text \<open>
  What the second reading of the selection does achieve: when nothing is selected at
  dispatch (the user has selected a repository without a GitHub remote, say), the
  handler shows no notification.
\<close>

theorem no_selection_at_dispatch_no_notification:
  assumes "repository (handleChecksFailedEvent e sched ev st) = None"
  shows "\<exists>calls. effects (handleChecksFailedEvent e sched ev st) = effects st @ calls
           \<and> (\<forall>x \<in> set calls. \<forall>n. x \<noteq> NotificationShow n)"
  using assms
  by (auto simp add: handler_eqs postChecksFailedNotification_def split: option.splits if_splits)

theorem no_selection_at_dispatch_no_notification_witness:
  "repository (handleChecksFailedEvent world leaveDuringChecks ownEvent desktopStore) = None
   \<and> effects (handleChecksFailedEvent world leaveDuringChecks ownEvent desktopStore) =
     [GetAllPullRequests desktopSelected, AccountsGetAll,
      GetCommit desktopSelected ''abc1234567890'', AccountsGetAll,
      FetchCombinedRefStatus (API_fromAccount userAccount) ''desktop'' ''desktop'' ''fix-bug'',
      FetchRefCheckRuns (API_fromAccount userAccount) ''desktop'' ''desktop'' ''fix-bug'']"
  using no_selection_at_dispatch_no_notification [of world leaveDuringChecks ownEvent desktopStore]
  by (simp add: step_eqs scenario_defs)

end
